theory Spec2Isabelle
  imports Complex_Main
begin

section \<open>InstaAllergy: the food scanner and the camera view\<close>

text \<open>
  The two React components \<^verbatim>\<open>FoodScanner\<close> and \<^verbatim>\<open>CameraView\<close> are modelled by
  explicit state passing. Every \<^verbatim>\<open>useState\<close> hook is a field of a record, every
  handler is a function on that record, and an \<^verbatim>\<open>async\<close> handler is cut at its
  \<^verbatim>\<open>await\<close>s into segments: a segment runs without interruption and hands back the
  task it is suspended on, and the event loop resumes it when the task settles.
\<close>

subsection \<open>Data returned by the remote flows\<close>

datatype alert_level = HIGH | MODERATE | SAFE

record DetectAllergensOutput =
  alert :: "alert_level option"
  allergenDetected :: bool
  detectedAllergens :: "string list"

record FoodDetails =
  ingredients :: "string list"
  nutritionalData :: string
  region :: string
  history :: string

record ClassifyFoodOutput =
  classification :: string
  confidence :: real
  isFood :: bool
  foodDetails :: "FoodDetails option"
  alternativeSuggestions :: "string list"

text \<open>A settled promise: it resolved with a value or it rejected (the \<^verbatim>\<open>catch\<close> path).\<close>

datatype 'a settled = Resolved 'a | Rejected

record remote =
  classifyFood :: "string \<Rightarrow> ClassifyFoodOutput settled"
  extractTextFromImage :: "string \<Rightarrow> string settled"
  detectAllergensAndGenerateAlert :: "string \<Rightarrow> string list \<Rightarrow> DetectAllergensOutput settled"

datatype remote_call =
    ClassifyFood string
  | ExtractText string
  | DetectAllergens string "string list"

subsection \<open>The state of \<^verbatim>\<open>FoodScanner\<close>\<close>

record toast =
  variant :: string
  title :: string
  description :: string

record File =
  file_name :: string
  file_size :: nat
  file_type :: string

text \<open>
  What an \<^verbatim>\<open>async\<close> handler, a \<^verbatim>\<open>FileReader\<close> or a \<^verbatim>\<open>fetch\<close> chain is suspended on.
  The allergen list is the \<^verbatim>\<open>userAllergens\<close> of the closure that started the run.
\<close>

datatype task =
    AwaitClassify string "string list"
  | AwaitFoodAllergens string "string list"
  | AwaitExtract string "string list"
  | AwaitLabelAllergens string "string list"
  | AwaitRead File
  | AwaitBlob string

record scanner =
  preview :: "string option"
  activeTab :: string
  classificationResult :: "ClassifyFoodOutput option"
  allergenResult :: "DetectAllergensOutput option"
  isClassifyLoading :: bool
  classifyError :: "string option"
  isOcrLoading :: bool
  extractedText :: "string option"
  ocrAllergenResult :: "DetectAllergensOutput option"
  ocrError :: "string option"
  isCameraOpen :: bool
  image :: "File option"
  userAllergens :: "string list"
  toasts :: "toast list"
  calls :: "remote_call list"
  tasks :: "task list"

text \<open>
  \<^verbatim>\<open>image\<close> is the form field of that name, \<^verbatim>\<open>userAllergens\<close> what \<^verbatim>\<open>useUser()\<close>
  supplies, \<^verbatim>\<open>toasts\<close> the notifications sent so far, \<^verbatim>\<open>calls\<close> the remote
  operations invoked so far and \<^verbatim>\<open>tasks\<close> the suspended continuations.
\<close>

definition initial :: "string list \<Rightarrow> scanner" where
  "initial al =
     \<lparr>preview = None, activeTab = ''analyze-food'',
      classificationResult = None, allergenResult = None,
      isClassifyLoading = False, classifyError = None,
      isOcrLoading = False, extractedText = None,
      ocrAllergenResult = None, ocrError = None,
      isCameraOpen = False, image = None, userAllergens = al,
      toasts = [], calls = [], tasks = []\<rparr>"

text \<open>JavaScript truthiness of a \<^verbatim>\<open>string | null\<close>: \<^verbatim>\<open>null\<close> and \<^verbatim>\<open>""\<close> are falsy.\<close>

fun truthy :: "string option \<Rightarrow> bool" where
  "truthy None = False"
| "truthy (Some s) = (s \<noteq> [])"

text \<open>\<^verbatim>\<open>Array.prototype.join\<close>.\<close>

fun join :: "string list \<Rightarrow> string \<Rightarrow> string" where
  "join [] sep = []"
| "join [x] sep = x"
| "join (x # y # ys) sep = x @ sep @ join (y # ys) sep"

subsection \<open>The handlers of \<^verbatim>\<open>FoodScanner\<close>\<close>

definition resetResults :: "scanner \<Rightarrow> scanner" where
  "resetResults s =
     s\<lparr>classificationResult := None, allergenResult := None, classifyError := None,
       extractedText := None, ocrAllergenResult := None, ocrError := None\<rparr>"

definition resetState :: "scanner \<Rightarrow> scanner" where
  "resetState s = (resetResults (s\<lparr>image := None, preview := None\<rparr>))\<lparr>isCameraOpen := False\<rparr>"

definition openCamera :: "scanner \<Rightarrow> scanner" where
  "openCamera s = (resetState s)\<lparr>isCameraOpen := True\<rparr>"

text \<open>
  \<^verbatim>\<open>handleFileChange\<close> only starts the reader; \<^verbatim>\<open>reader.onloadend\<close> runs later with
  \<^verbatim>\<open>reader.result\<close> (\<^verbatim>\<open>null\<close> when the read failed).
\<close>

definition handleFileChange :: "File option \<Rightarrow> scanner \<Rightarrow> scanner \<times> task option" where
  "handleFileChange f s = (case f of None \<Rightarrow> (s, None) | Some fl \<Rightarrow> (s, Some (AwaitRead fl)))"

definition onloadend :: "File \<Rightarrow> string option \<Rightarrow> scanner \<Rightarrow> scanner" where
  "onloadend fl res s = resetResults (s\<lparr>preview := res, image := Some fl\<rparr>)"

text \<open>
  \<^verbatim>\<open>handleCapture\<close> sets the preview and closes the camera at once; the form value and
  \<^verbatim>\<open>resetResults\<close> happen in the \<^verbatim>\<open>then\<close> callback, once the blob is there.
\<close>

definition handleCapture :: "string \<Rightarrow> scanner \<Rightarrow> scanner \<times> task option" where
  "handleCapture dataUri s =
     (s\<lparr>preview := Some dataUri, isCameraOpen := False\<rparr>, Some (AwaitBlob dataUri))"

definition capture_then :: "nat \<Rightarrow> scanner \<Rightarrow> scanner" where
  "capture_then n s =
     resetResults (s\<lparr>image := Some \<lparr>file_name = ''capture.jpg'', file_size = n,
                                     file_type = ''image/jpeg''\<rparr>\<rparr>)"

definition onValueChange :: "string \<Rightarrow> scanner \<Rightarrow> scanner" where
  "onValueChange v s = resetResults (s\<lparr>activeTab := v\<rparr>)"

definition offline_food_toast :: toast where
  "offline_food_toast =
     \<lparr>variant = ''destructive'', title = ''You're Offline'',
      description = ''An internet connection is required to analyze food.''\<rparr>"

definition offline_label_toast :: toast where
  "offline_label_toast =
     \<lparr>variant = ''destructive'', title = ''You're Offline'',
      description = ''An internet connection is required to scan labels.''\<rparr>"

definition food_failed_toast :: toast where
  "food_failed_toast =
     \<lparr>variant = ''destructive'', title = ''Analysis Failed'',
      description = ''Could not analyze the food item.''\<rparr>"

definition label_failed_toast :: toast where
  "label_failed_toast =
     \<lparr>variant = ''destructive'', title = ''Analysis Failed'',
      description = ''Could not analyze the product label.''\<rparr>"

text \<open>\<^verbatim>\<open>onSubmit\<close> up to its first \<^verbatim>\<open>await\<close>; \<^verbatim>\<open>online\<close> is \<^verbatim>\<open>navigator.onLine\<close>.\<close>

definition onSubmit_begin :: "bool \<Rightarrow> scanner \<Rightarrow> scanner \<times> task option" where
  "onSubmit_begin online s =
     (if \<not> online then (s\<lparr>toasts := toasts s @ [offline_food_toast]\<rparr>, None)
      else case preview s of
        None \<Rightarrow> (s\<lparr>classifyError := Some ''Please select an image first.''\<rparr>, None)
      | Some photoDataUri \<Rightarrow>
          if photoDataUri = [] then
            (s\<lparr>classifyError := Some ''Please select an image first.''\<rparr>, None)
          else
            ((resetResults (s\<lparr>isClassifyLoading := True\<rparr>))
               \<lparr>calls := calls s @ [ClassifyFood photoDataUri]\<rparr>,
             Some (AwaitClassify photoDataUri (userAllergens s))))"

text \<open>\<^verbatim>\<open>onSubmit\<close> from the resolved \<^verbatim>\<open>classifyFood\<close> to the next \<^verbatim>\<open>await\<close> or the end.\<close>

definition onSubmit_classified ::
  "string list \<Rightarrow> ClassifyFoodOutput \<Rightarrow> scanner \<Rightarrow> scanner \<times> task option" where
  "onSubmit_classified al cfOutput s =
     (let s1 = s\<lparr>classificationResult := Some cfOutput\<rparr> in
      case foodDetails cfOutput of
        Some fd \<Rightarrow>
          if isFood cfOutput then
            (s1\<lparr>calls := calls s1 @ [DetectAllergens (join (ingredients fd) '', '') al]\<rparr>,
             Some (AwaitFoodAllergens (join (ingredients fd) '', '') al))
          else (s1\<lparr>isClassifyLoading := False\<rparr>, None)
      | None \<Rightarrow> (s1\<lparr>isClassifyLoading := False\<rparr>, None))"

definition onSubmit_detected :: "DetectAllergensOutput \<Rightarrow> scanner \<Rightarrow> scanner" where
  "onSubmit_detected daOutput s = s\<lparr>allergenResult := Some daOutput, isClassifyLoading := False\<rparr>"

definition onSubmit_catch :: "scanner \<Rightarrow> scanner" where
  "onSubmit_catch s =
     s\<lparr>classifyError := Some ''An error occurred during analysis. Please try again.'',
       toasts := toasts s @ [food_failed_toast],
       isClassifyLoading := False\<rparr>"

text \<open>The same for \<^verbatim>\<open>handleScanLabel\<close>.\<close>

definition handleScanLabel_begin :: "bool \<Rightarrow> scanner \<Rightarrow> scanner \<times> task option" where
  "handleScanLabel_begin online s =
     (if \<not> online then (s\<lparr>toasts := toasts s @ [offline_label_toast]\<rparr>, None)
      else case preview s of
        None \<Rightarrow> (s\<lparr>ocrError := Some ''Please select an image first.''\<rparr>, None)
      | Some photoDataUri \<Rightarrow>
          if photoDataUri = [] then
            (s\<lparr>ocrError := Some ''Please select an image first.''\<rparr>, None)
          else
            ((resetResults (s\<lparr>isOcrLoading := True\<rparr>))
               \<lparr>calls := calls s @ [ExtractText photoDataUri]\<rparr>,
             Some (AwaitExtract photoDataUri (userAllergens s))))"

definition handleScanLabel_extracted ::
  "string list \<Rightarrow> string \<Rightarrow> scanner \<Rightarrow> scanner \<times> task option" where
  "handleScanLabel_extracted al txt s =
     (let s1 = s\<lparr>extractedText := Some txt\<rparr> in
      if txt \<noteq> [] then
        (s1\<lparr>calls := calls s1 @ [DetectAllergens txt al]\<rparr>, Some (AwaitLabelAllergens txt al))
      else (s1\<lparr>isOcrLoading := False\<rparr>, None))"

definition handleScanLabel_detected :: "DetectAllergensOutput \<Rightarrow> scanner \<Rightarrow> scanner" where
  "handleScanLabel_detected daOutput s =
     s\<lparr>ocrAllergenResult := Some daOutput, isOcrLoading := False\<rparr>"

definition handleScanLabel_catch :: "scanner \<Rightarrow> scanner" where
  "handleScanLabel_catch s =
     s\<lparr>ocrError := Some ''An error occurred during label analysis. Please try again.'',
       toasts := toasts s @ [label_failed_toast],
       isOcrLoading := False\<rparr>"

subsection \<open>A run that nothing interrupts\<close>

text \<open>
  \<^verbatim>\<open>onSubmit\<close> and \<^verbatim>\<open>handleScanLabel\<close> from call to return, with the remote flows
  answering at once: the segments above in the order of the source, the \<^verbatim>\<open>catch\<close>
  block taken when a flow rejects.
\<close>

definition onSubmit :: "remote \<Rightarrow> bool \<Rightarrow> scanner \<Rightarrow> scanner" where
  "onSubmit r online s =
     (case onSubmit_begin online s of
        (s1, Some (AwaitClassify photoDataUri al)) \<Rightarrow>
          (case classifyFood r photoDataUri of
             Rejected \<Rightarrow> onSubmit_catch s1
           | Resolved cfOutput \<Rightarrow>
               (case onSubmit_classified al cfOutput s1 of
                  (s2, Some (AwaitFoodAllergens txt al2)) \<Rightarrow>
                    (case detectAllergensAndGenerateAlert r txt al2 of
                       Rejected \<Rightarrow> onSubmit_catch s2
                     | Resolved daOutput \<Rightarrow> onSubmit_detected daOutput s2)
                | (s2, _) \<Rightarrow> s2))
      | (s1, _) \<Rightarrow> s1)"

definition handleScanLabel :: "remote \<Rightarrow> bool \<Rightarrow> scanner \<Rightarrow> scanner" where
  "handleScanLabel r online s =
     (case handleScanLabel_begin online s of
        (s1, Some (AwaitExtract photoDataUri al)) \<Rightarrow>
          (case extractTextFromImage r photoDataUri of
             Rejected \<Rightarrow> handleScanLabel_catch s1
           | Resolved txt \<Rightarrow>
               (case handleScanLabel_extracted al txt s1 of
                  (s2, Some (AwaitLabelAllergens txt2 al2)) \<Rightarrow>
                    (case detectAllergensAndGenerateAlert r txt2 al2 of
                       Rejected \<Rightarrow> handleScanLabel_catch s2
                     | Resolved daOutput \<Rightarrow> handleScanLabel_detected daOutput s2)
                | (s2, _) \<Rightarrow> s2))
      | (s1, _) \<Rightarrow> s1)"

subsection \<open>What is rendered\<close>

record badge =
  badge_variant :: string
  className :: string
  children :: string

fun getAlertBadgeProps :: "alert_level option \<Rightarrow> badge" where
  "getAlertBadgeProps (Some HIGH) =
     \<lparr>badge_variant = ''destructive'', className = [], children = ''HIGH RISK''\<rparr>"
| "getAlertBadgeProps (Some MODERATE) =
     \<lparr>badge_variant = ''secondary'', className = ''border-yellow-500/50'',
      children = ''MODERATE RISK''\<rparr>"
| "getAlertBadgeProps (Some SAFE) =
     \<lparr>badge_variant = ''default'',
      className = ''bg-chart-2 text-accent-foreground hover:bg-chart-2/90'',
      children = ''SAFE''\<rparr>"
| "getAlertBadgeProps None =
     \<lparr>badge_variant = ''outline'', className = [], children = ''UNKNOWN''\<rparr>"

definition classifyBadgeProps :: "scanner \<Rightarrow> badge" where
  "classifyBadgeProps s =
     (case allergenResult s of
        Some r \<Rightarrow> getAlertBadgeProps (alert r)
      | None \<Rightarrow> getAlertBadgeProps None)"

definition ocrBadgeProps :: "scanner \<Rightarrow> badge" where
  "ocrBadgeProps s =
     (case ocrAllergenResult s of
        Some r \<Rightarrow> getAlertBadgeProps (alert r)
      | None \<Rightarrow> getAlertBadgeProps None)"

text \<open>
  The corner of a result card: the spinner, the badge of the allergen check, the plain
  outlined \<^verbatim>\<open>UNKNOWN\<close> badge, or nothing.
\<close>

datatype corner = Loader | AllergenBadge badge | UnknownBadge | NoBadge

definition analyze_corner :: "scanner \<Rightarrow> ClassifyFoodOutput \<Rightarrow> corner" where
  "analyze_corner s cf =
     (if isClassifyLoading s \<and> allergenResult s = None then Loader
      else if allergenResult s \<noteq> None then AllergenBadge (classifyBadgeProps s)
      else if foodDetails cf = None then UnknownBadge
      else NoBadge)"

definition scan_corner :: "scanner \<Rightarrow> corner" where
  "scan_corner s =
     (if isOcrLoading s \<and> ocrAllergenResult s = None then Loader
      else if ocrAllergenResult s \<noteq> None then AllergenBadge (ocrBadgeProps s)
      else NoBadge)"

text \<open>
  The card of the \<^verbatim>\<open>analyze-food\<close> tab: the classification, the corner and the
  allergen alert; \<^verbatim>\<open>None\<close> when the card is not rendered.
\<close>

definition analyze_card ::
  "scanner \<Rightarrow> (ClassifyFoodOutput \<times> corner \<times> DetectAllergensOutput option) option" where
  "analyze_card s =
     (case classificationResult s of
        Some cf \<Rightarrow>
          if activeTab s = ''analyze-food''
          then Some (cf, analyze_corner s cf,
                     if isClassifyLoading s \<and> allergenResult s = None then None
                     else allergenResult s)
          else None
      | None \<Rightarrow> None)"

text \<open>The card of the \<^verbatim>\<open>scan-label\<close> tab: the text area, the corner and the alert.\<close>

definition scan_card ::
  "scanner \<Rightarrow> (string \<times> corner \<times> DetectAllergensOutput option) option" where
  "scan_card s =
     (case extractedText s of
        Some txt \<Rightarrow>
          if activeTab s = ''scan-label''
          then Some (txt, scan_corner s, ocrAllergenResult s)
          else None
      | None \<Rightarrow> None)"

definition classify_banner :: "scanner \<Rightarrow> string option" where
  "classify_banner s =
     (if truthy (classifyError s) \<and> activeTab s = ''analyze-food'' then classifyError s
      else None)"

definition ocr_banner :: "scanner \<Rightarrow> string option" where
  "ocr_banner s =
     (if truthy (ocrError s) \<and> activeTab s = ''scan-label'' then ocrError s else None)"

subsection \<open>The event loop of \<^verbatim>\<open>FoodScanner\<close>\<close>

text \<open>
  What a suspended task can settle with, and what the user and the platform can do.
  \<^verbatim>\<open>Settle i out\<close> resumes the \<open>i\<close>-th suspended task with \<open>out\<close>. The flag of
  \<^verbatim>\<open>Submit\<close> and \<^verbatim>\<open>ScanLabelClick\<close> is \<^verbatim>\<open>navigator.onLine\<close> at that moment.
\<close>

datatype outcome =
    Classified ClassifyFoodOutput
  | Extracted string
  | Detected DetectAllergensOutput
  | Failed
  | ReadResult "string option"
  | Blob nat

datatype event =
    FileChange "File option"
  | Capture string
  | CloseCamera
  | UseCamera
  | ClearImage
  | TabChange string
  | Submit bool
  | ScanLabelClick bool
  | Settle nat outcome

fun resume :: "task \<Rightarrow> outcome \<Rightarrow> scanner \<Rightarrow> (scanner \<times> task option) option" where
  "resume (AwaitClassify p al) (Classified cf) s = Some (onSubmit_classified al cf s)"
| "resume (AwaitClassify p al) Failed s = Some (onSubmit_catch s, None)"
| "resume (AwaitFoodAllergens t al) (Detected da) s = Some (onSubmit_detected da s, None)"
| "resume (AwaitFoodAllergens t al) Failed s = Some (onSubmit_catch s, None)"
| "resume (AwaitExtract p al) (Extracted txt) s = Some (handleScanLabel_extracted al txt s)"
| "resume (AwaitExtract p al) Failed s = Some (handleScanLabel_catch s, None)"
| "resume (AwaitLabelAllergens t al) (Detected da) s = Some (handleScanLabel_detected da s, None)"
| "resume (AwaitLabelAllergens t al) Failed s = Some (handleScanLabel_catch s, None)"
| "resume (AwaitRead fl) (ReadResult res) s = Some (onloadend fl res s, None)"
| "resume (AwaitBlob uri) (Blob n) s = Some (capture_then n s, None)"
| "resume (AwaitBlob uri) Failed s = Some (s, None)"
| "resume _ _ _ = None"

fun spawn :: "scanner \<times> task option \<Rightarrow> scanner" where
  "spawn (s, None) = s"
| "spawn (s, Some t) = s\<lparr>tasks := tasks s @ [t]\<rparr>"

definition loading :: "scanner \<Rightarrow> bool" where
  "loading s = (isClassifyLoading s \<or> isOcrLoading s)"

text \<open>The resolver of the form: the image is absent or has a positive size.\<close>

definition form_valid :: "scanner \<Rightarrow> bool" where
  "form_valid s = (case image s of None \<Rightarrow> True | Some fl \<Rightarrow> 0 < file_size fl)"

text \<open>
  An event fires only where the markup offers it: the file input and the camera button
  are rendered without a preview and with the camera closed, the camera view without a
  preview and with the camera open, the clear button with a preview; the footer shows
  the button of the active tab; \<^verbatim>\<open>disabled\<close> is as in the source. \<^verbatim>\<open>Capture\<close> is
  what the camera view sends through \<^verbatim>\<open>onCapture\<close>: its own button is enabled only
  with \<^verbatim>\<open>hasPermission\<close> true, a field of the camera view and not of this state, so
  here it is accepted whenever the camera view is rendered, which admits more
  sequences than the page does and none fewer.
\<close>

fun fire :: "event \<Rightarrow> scanner \<Rightarrow> scanner option" where
  "fire (FileChange f) s =
     (if \<not> truthy (preview s) \<and> \<not> isCameraOpen s \<and> \<not> loading s
      then Some (spawn (handleFileChange f s)) else None)"
| "fire UseCamera s =
     (if \<not> truthy (preview s) \<and> \<not> isCameraOpen s \<and> \<not> loading s
      then Some (openCamera s) else None)"
| "fire (Capture dataUri) s =
     (if \<not> truthy (preview s) \<and> isCameraOpen s
      then Some (spawn (handleCapture dataUri s)) else None)"
| "fire CloseCamera s =
     (if \<not> truthy (preview s) \<and> isCameraOpen s
      then Some (s\<lparr>isCameraOpen := False\<rparr>) else None)"
| "fire ClearImage s =
     (if truthy (preview s) \<and> \<not> loading s then Some (resetState s) else None)"
| "fire (TabChange v) s = Some (onValueChange v s)"
| "fire (Submit online) s =
     (if activeTab s = ''analyze-food'' \<and> \<not> isClassifyLoading s \<and> truthy (preview s)
         \<and> form_valid s
      then Some (spawn (onSubmit_begin online s)) else None)"
| "fire (ScanLabelClick online) s =
     (if activeTab s \<noteq> ''analyze-food'' \<and> \<not> isOcrLoading s \<and> truthy (preview s)
      then Some (spawn (handleScanLabel_begin online s)) else None)"
| "fire (Settle i out) s =
     (if i < length (tasks s)
      then (case resume (tasks s ! i) out (s\<lparr>tasks := take i (tasks s) @ drop (Suc i) (tasks s)\<rparr>) of
              Some r \<Rightarrow> Some (spawn r)
            | None \<Rightarrow> None)
      else None)"

fun run :: "event list \<Rightarrow> scanner \<Rightarrow> scanner option" where
  "run [] s = Some s"
| "run (e # es) s = (case fire e s of Some s' \<Rightarrow> run es s' | None \<Rightarrow> None)"

subsection \<open>\<^verbatim>\<open>CameraView\<close> and the capture device\<close>

record js_error =
  name :: string
  message :: string

text \<open>
  One mounted \<^verbatim>\<open>CameraView\<close>: \<^verbatim>\<open>streamRef.current\<close>, \<^verbatim>\<open>hasPermission\<close>, the
  \<^verbatim>\<open>srcObject\<close> of the video element, and whether \<^verbatim>\<open>videoRef.current\<close> is there
  (it is while the component is mounted). A stream is a number.
\<close>

record CameraView =
  streamRef :: "nat option"
  hasPermission :: "bool option"
  srcObject :: "nat option"
  videoRef :: bool

text \<open>
  The device and every \<^verbatim>\<open>CameraView\<close> mounted so far: \<^verbatim>\<open>live\<close> are the streams whose
  tracks have not been stopped, \<^verbatim>\<open>requesting\<close> the views whose \<^verbatim>\<open>getUserMedia\<close> call
  is pending, \<^verbatim>\<open>mounted\<close> the view on screen.
\<close>

record camera =
  views :: "nat \<Rightarrow> CameraView"
  view_count :: nat
  mounted :: "nat option"
  live :: "nat list"
  stream_count :: nat
  requesting :: "nat list"
  camera_toasts :: "toast list"

definition fresh_view :: CameraView where
  "fresh_view = \<lparr>streamRef = None, hasPermission = None, srcObject = None, videoRef = True\<rparr>"

definition no_camera :: camera where
  "no_camera =
     \<lparr>views = (\<lambda>_. fresh_view), view_count = 0, mounted = None, live = [],
      stream_count = 0, requesting = [], camera_toasts = []\<rparr>"

definition stopCamera :: "nat \<Rightarrow> camera \<Rightarrow> camera" where
  "stopCamera i w =
     (case streamRef (views w i) of
        Some st \<Rightarrow>
          w\<lparr>live := removeAll st (live w),
            views := (views w)(i := (views w i)\<lparr>streamRef := None\<rparr>)\<rparr>
      | None \<Rightarrow> w)"

definition camera_toast :: "js_error \<Rightarrow> toast" where
  "camera_toast err =
     (if name err = ''NotAllowedError'' then
        \<lparr>variant = ''destructive'', title = ''Camera Access Denied'',
         description = ''Please enable camera permissions in your browser settings to use this feature.''\<rparr>
      else if name err = ''NotFoundError'' then
        \<lparr>variant = ''destructive'', title = ''No Camera Found'',
         description = ''We couldn't find a camera on your device.''\<rparr>
      else
        \<lparr>variant = ''destructive'', title = ''Camera Error'',
         description = ''Could not access the camera. Please try again.''\<rparr>)"

definition startCamera_catch :: "js_error \<Rightarrow> nat \<Rightarrow> camera \<Rightarrow> camera" where
  "startCamera_catch err i w =
     w\<lparr>views := (views w)(i := (views w i)\<lparr>hasPermission := Some False\<rparr>),
       camera_toasts := camera_toasts w @ [camera_toast err]\<rparr>"

definition not_supported :: js_error where
  "not_supported = \<lparr>name = ''Error'', message = ''Camera not supported on this browser.''\<rparr>"

text \<open>
  \<^verbatim>\<open>startCamera\<close> up to its \<^verbatim>\<open>await\<close>; \<^verbatim>\<open>api\<close> says whether
  \<^verbatim>\<open>navigator.mediaDevices.getUserMedia\<close> exists.
\<close>

definition startCamera_begin :: "bool \<Rightarrow> nat \<Rightarrow> camera \<Rightarrow> camera" where
  "startCamera_begin api i w =
     (let w1 = stopCamera i w in
      if \<not> api then startCamera_catch not_supported i w1
      else w1\<lparr>requesting := requesting w1 @ [i]\<rparr>)"

text \<open>
  \<^verbatim>\<open>startCamera\<close> after \<^verbatim>\<open>getUserMedia\<close> resolved with the stream \<open>st\<close>. The ref
  is written in any case; the video element is gone and the state update is dropped
  when the view has been unmounted in the meantime.
\<close>

definition startCamera_granted :: "nat \<Rightarrow> nat \<Rightarrow> camera \<Rightarrow> camera" where
  "startCamera_granted st i w =
     w\<lparr>views := (views w)(i := (views w i)
          \<lparr>streamRef := Some st,
           srcObject := (if videoRef (views w i) then Some st else srcObject (views w i)),
           hasPermission :=
             (if videoRef (views w i) then Some True else hasPermission (views w i))\<rparr>)\<rparr>"

datatype camera_event =
    Mount bool
  | Unmount
  | Granted nat
  | Refused nat js_error

text \<open>
  Mounting runs the effect (\<^verbatim>\<open>startCamera\<close>), unmounting its cleanup
  (\<^verbatim>\<open>stopCamera\<close>). \<^verbatim>\<open>Granted k\<close> and \<^verbatim>\<open>Refused k err\<close> settle the \<open>k\<close>-th pending
  \<^verbatim>\<open>getUserMedia\<close> call; a granted stream is new and live from then on.
\<close>

fun camera_fire :: "camera_event \<Rightarrow> camera \<Rightarrow> camera option" where
  "camera_fire (Mount api) w =
     (case mounted w of
        Some _ \<Rightarrow> None
      | None \<Rightarrow>
          Some (startCamera_begin api (view_count w)
                  (w\<lparr>views := (views w)(view_count w := fresh_view),
                     mounted := Some (view_count w),
                     view_count := Suc (view_count w)\<rparr>)))"
| "camera_fire Unmount w =
     (case mounted w of
        None \<Rightarrow> None
      | Some i \<Rightarrow>
          Some ((stopCamera i w)
                  \<lparr>views := (views (stopCamera i w))
                              (i := (views (stopCamera i w) i)\<lparr>videoRef := False\<rparr>),
                   mounted := None\<rparr>))"
| "camera_fire (Granted k) w =
     (if k < length (requesting w)
      then Some (startCamera_granted (stream_count w) (requesting w ! k)
                   (w\<lparr>requesting := take k (requesting w) @ drop (Suc k) (requesting w),
                      live := live w @ [stream_count w],
                      stream_count := Suc (stream_count w)\<rparr>))
      else None)"
| "camera_fire (Refused k err) w =
     (if k < length (requesting w)
      then Some (startCamera_catch err (requesting w ! k)
                   (w\<lparr>requesting := take k (requesting w) @ drop (Suc k) (requesting w)\<rparr>))
      else None)"

fun camera_run :: "camera_event list \<Rightarrow> camera \<Rightarrow> camera option" where
  "camera_run [] w = Some w"
| "camera_run (e # es) w = (case camera_fire e w of Some w' \<Rightarrow> camera_run es w' | None \<Rightarrow> None)"

text \<open>
  \<^verbatim>\<open>startCamera\<close> from call to return on the view \<open>i\<close>, the platform answering at once:
  with a stream, or by throwing.
\<close>

datatype media = Stream nat | Throws js_error

definition startCamera :: "bool \<Rightarrow> media \<Rightarrow> nat \<Rightarrow> camera \<Rightarrow> camera" where
  "startCamera api m i w =
     (let w1 = stopCamera i w in
      if \<not> api then startCamera_catch not_supported i w1
      else case m of
        Stream st \<Rightarrow> startCamera_granted st i (w1\<lparr>live := live w1 @ [st]\<rparr>)
      | Throws err \<Rightarrow> startCamera_catch err i w1)"

subsection \<open>Observations and concrete inputs\<close>

text \<open>The six result and error slots that \<^verbatim>\<open>resetResults\<close> clears.\<close>

definition slots ::
  "scanner \<Rightarrow> ClassifyFoodOutput option \<times> DetectAllergensOutput option \<times> string option
     \<times> string option \<times> DetectAllergensOutput option \<times> string option" where
  "slots s =
     (classificationResult s, allergenResult s, classifyError s,
      extractedText s, ocrAllergenResult s, ocrError s)"

definition upload_a :: File where
  "upload_a = \<lparr>file_name = ''a.jpg'', file_size = 10, file_type = ''image/jpeg''\<rparr>"

definition upload_b :: File where
  "upload_b = \<lparr>file_name = ''b.jpg'', file_size = 20, file_type = ''image/jpeg''\<rparr>"

definition pizza :: ClassifyFoodOutput where
  "pizza =
     \<lparr>classification = ''Pizza'', confidence = 1, isFood = True,
      foodDetails = Some \<lparr>ingredients = [''milk'', ''sugar''], nutritionalData = ''n'',
                          region = ''r'', history = ''h''\<rparr>,
      alternativeSuggestions = []\<rparr>"

definition not_food :: ClassifyFoodOutput where
  "not_food =
     \<lparr>classification = ''Shoe'', confidence = 1, isFood = False, foodDetails = None,
      alternativeSuggestions = []\<rparr>"

definition high_risk :: DetectAllergensOutput where
  "high_risk = \<lparr>alert = Some HIGH, allergenDetected = True, detectedAllergens = [''milk'']\<rparr>"

text \<open>A profile with milk, the image \<^verbatim>\<open>data:a\<close> staged, nothing run yet.\<close>

definition staged :: scanner where
  "staged = (initial [''milk''])\<lparr>preview := Some ''data:a'', image := Some upload_a\<rparr>"

text \<open>Flows whose first stage finds nothing to check.\<close>

definition remote_blank :: remote where
  "remote_blank =
     \<lparr>classifyFood = (\<lambda>_. Resolved not_food),
      extractTextFromImage = (\<lambda>_. Resolved []),
      detectAllergensAndGenerateAlert = (\<lambda>_ _. Resolved high_risk)\<rparr>"

text \<open>Flows whose first stage succeeds and whose allergen check rejects.\<close>

definition remote_down :: remote where
  "remote_down =
     \<lparr>classifyFood = (\<lambda>_. Resolved pizza),
      extractTextFromImage = (\<lambda>_. Resolved ''milk, sugar''),
      detectAllergensAndGenerateAlert = (\<lambda>_ _. Rejected)\<rparr>"

text \<open>The same with the \<^verbatim>\<open>scan-label\<close> tab active.\<close>

definition label_tab :: scanner where
  "label_tab = staged\<lparr>activeTab := ''scan-label''\<rparr>"

text \<open>The staged image with results of an earlier run still in the slots.\<close>

definition shown :: scanner where
  "shown = staged\<lparr>classificationResult := Some pizza, allergenResult := Some high_risk,
                   ocrError := Some ''old''\<rparr>"

text \<open>What belongs to each pipeline: its two results, its error and its loading flag.\<close>

definition food_slots ::
  "scanner \<Rightarrow> ClassifyFoodOutput option \<times> DetectAllergensOutput option \<times> string option \<times> bool" where
  "food_slots s = (classificationResult s, allergenResult s, classifyError s, isClassifyLoading s)"

definition label_slots ::
  "scanner \<Rightarrow> string option \<times> DetectAllergensOutput option \<times> string option \<times> bool" where
  "label_slots s = (extractedText s, ocrAllergenResult s, ocrError s, isOcrLoading s)"

text \<open>What belongs to neither pipeline.\<close>

definition shared ::
  "scanner \<Rightarrow> string option \<times> string \<times> File option \<times> bool \<times> string list \<times> task list" where
  "shared s = (preview s, activeTab s, image s, isCameraOpen s, userAllergens s, tasks s)"


text \<open>
  An image is uploaded and analysed; while \<^verbatim>\<open>classifyFood\<close> is pending the user
  switches to the label tab, starts a label scan and switches back.
\<close>

definition superseded_run :: "event list" where
  "superseded_run =
     [FileChange (Some upload_a), Settle 0 (ReadResult (Some ''data:a'')), Submit True,
      TabChange ''scan-label'', ScanLabelClick True, TabChange ''analyze-food'']"


text \<open>
  The camera view is opened and cancelled before the permission prompt is answered;
  the prompt is then granted, and the camera view is opened and granted again.
\<close>

definition cancel_then_reopen :: "camera_event list" where
  "cancel_then_reopen = [Mount True, Unmount, Granted 0, Mount True, Granted 0]"

definition generic_camera_toast :: toast where
  "generic_camera_toast =
     \<lparr>variant = ''destructive'', title = ''Camera Error'',
      description = ''Could not access the camera. Please try again.''\<rparr>"

text \<open>A failure of \<^verbatim>\<open>getUserMedia\<close> that is neither a denial nor a missing device.\<close>

definition not_readable :: js_error where
  "not_readable = \<lparr>name = ''NotReadableError'', message = ''Could not start video source''\<rparr>"

text \<open>
  The continuations of a food analysis and of a label scan, and the bookkeeping that
  ties them to the loading flags: a pipeline has one suspended continuation while its
  flag is set and none otherwise.
\<close>

fun food_task :: "task \<Rightarrow> bool" where
  "food_task (AwaitClassify p al) = True"
| "food_task (AwaitFoodAllergens t al) = True"
| "food_task _ = False"

fun label_task :: "task \<Rightarrow> bool" where
  "label_task (AwaitExtract p al) = True"
| "label_task (AwaitLabelAllergens t al) = True"
| "label_task _ = False"

definition in_step :: "scanner \<Rightarrow> bool" where
  "in_step s =
     (length (filter food_task (tasks s)) = (if isClassifyLoading s then 1 else 0)
      \<and> length (filter label_task (tasks s)) = (if isOcrLoading s then 1 else 0))"

text \<open>The state that \<open>superseded_run\<close> leads to.\<close>

definition after_superseded :: scanner where
  "after_superseded =
     (initial [])\<lparr>preview := Some ''data:a'', image := Some upload_a,
                   isClassifyLoading := True, isOcrLoading := True,
                   calls := [ClassifyFood ''data:a'', ExtractText ''data:a''],
                   tasks := [AwaitClassify ''data:a'' [], AwaitExtract ''data:a'' []]\<rparr>"

section \<open>Properties\<close>

subsection \<open>The shape of an uninterrupted run\<close>

lemma onSubmit_started:
  assumes "preview s = Some p" "p \<noteq> []"
  shows "onSubmit_begin True s =
           ((resetResults (s\<lparr>isClassifyLoading := True\<rparr>))\<lparr>calls := calls s @ [ClassifyFood p]\<rparr>,
            Some (AwaitClassify p (userAllergens s)))"
  using assms by (simp add: onSubmit_begin_def)

lemma handleScanLabel_started:
  assumes "preview s = Some p" "p \<noteq> []"
  shows "handleScanLabel_begin True s =
           ((resetResults (s\<lparr>isOcrLoading := True\<rparr>))\<lparr>calls := calls s @ [ExtractText p]\<rparr>,
            Some (AwaitExtract p (userAllergens s)))"
  using assms by (simp add: handleScanLabel_begin_def)

lemma onSubmit_skips:
  assumes "preview s = Some p" "p \<noteq> []" "classifyFood r p = Resolved cf"
    "\<not> (isFood cf \<and> foodDetails cf \<noteq> None)"
  shows "onSubmit r True s =
    (resetResults (s\<lparr>isClassifyLoading := True\<rparr>))
      \<lparr>calls := calls s @ [ClassifyFood p], classificationResult := Some cf,
       isClassifyLoading := False\<rparr>"
  using assms
  by (auto simp add: onSubmit_def onSubmit_started onSubmit_classified_def Let_def
        resetResults_def split: option.splits)

lemma onSubmit_checks:
  assumes "preview s = Some p" "p \<noteq> []" "classifyFood r p = Resolved cf"
    "isFood cf" "foodDetails cf = Some fd"
  shows "onSubmit r True s =
    (case detectAllergensAndGenerateAlert r (join (ingredients fd) '', '') (userAllergens s) of
       Rejected \<Rightarrow> onSubmit_catch
          ((resetResults (s\<lparr>isClassifyLoading := True\<rparr>))
            \<lparr>classificationResult := Some cf,
             calls := calls s @ [ClassifyFood p,
                        DetectAllergens (join (ingredients fd) '', '') (userAllergens s)]\<rparr>)
     | Resolved da \<Rightarrow> onSubmit_detected da
          ((resetResults (s\<lparr>isClassifyLoading := True\<rparr>))
            \<lparr>classificationResult := Some cf,
             calls := calls s @ [ClassifyFood p,
                        DetectAllergens (join (ingredients fd) '', '') (userAllergens s)]\<rparr>))"
  using assms
  by (simp add: onSubmit_def onSubmit_started onSubmit_classified_def Let_def resetResults_def
        split: settled.splits)

subsection \<open>Offline\<close>

text \<open>
  C4. When \<^verbatim>\<open>navigator.onLine\<close> is false, \<^verbatim>\<open>onSubmit\<close> and \<^verbatim>\<open>handleScanLabel\<close> send
  their "You're Offline" notification and return: the state is otherwise the one they
  were called in, so no remote flow has been invoked, no loading flag is set and no
  continuation is left suspended. The run never starts.
\<close>

theorem offline_aborts_before_any_call:
  "onSubmit_begin False s = (s\<lparr>toasts := toasts s @ [offline_food_toast]\<rparr>, None)
   \<and> handleScanLabel_begin False s = (s\<lparr>toasts := toasts s @ [offline_label_toast]\<rparr>, None)
   \<and> onSubmit r False s = s\<lparr>toasts := toasts s @ [offline_food_toast]\<rparr>
   \<and> handleScanLabel r False s = s\<lparr>toasts := toasts s @ [offline_label_toast]\<rparr>
   \<and> calls (onSubmit r False s) = calls s \<and> calls (handleScanLabel r False s) = calls s
   \<and> tasks (spawn (onSubmit_begin False s)) = tasks s
   \<and> tasks (spawn (handleScanLabel_begin False s)) = tasks s
   \<and> loading (onSubmit r False s) = loading s \<and> loading (handleScanLabel r False s) = loading s"
  by (simp add: onSubmit_def handleScanLabel_def onSubmit_begin_def handleScanLabel_begin_def
        loading_def)

subsection \<open>When the second stage runs\<close>

text \<open>
  C2. Take a run of \<^verbatim>\<open>onSubmit\<close> that passes its checks and whose classification
  resolves with \<open>cf\<close>. The remote operations it invokes are \<^verbatim>\<open>classifyFood\<close> on the
  preview and then, exactly when \<open>cf\<close> is food and carries food details,
  \<^verbatim>\<open>detectAllergensAndGenerateAlert\<close> on the ingredients joined by \<^verbatim>\<open>", "\<close> and the
  user's allergens; the segment after the classification suspends on a second call in
  that case only, whatever state it resumes in. Otherwise the run is over after the
  first stage: the classification is recorded, there is no allergen result and no
  error, loading is off, the derived badge is \<^verbatim>\<open>UNKNOWN\<close>, and the corner of the
  card holds no allergen badge (the outlined \<^verbatim>\<open>UNKNOWN\<close> badge when the details are
  absent, nothing when they are present).
\<close>

theorem stage2_iff_food_with_details:
  assumes "preview s = Some p" and "p \<noteq> []" and "classifyFood r p = Resolved cf"
  shows "calls (onSubmit r True s) =
           calls s @ ClassifyFood p #
             (case foodDetails cf of
                Some fd \<Rightarrow>
                  if isFood cf
                  then [DetectAllergens (join (ingredients fd) '', '') (userAllergens s)]
                  else []
              | None \<Rightarrow> [])
         \<and> (snd (onSubmit_classified al cf s0) \<noteq> None \<longleftrightarrow> isFood cf \<and> foodDetails cf \<noteq> None)
         \<and> (\<not> (isFood cf \<and> foodDetails cf \<noteq> None) \<longrightarrow>
              classificationResult (onSubmit r True s) = Some cf
              \<and> allergenResult (onSubmit r True s) = None
              \<and> classifyError (onSubmit r True s) = None
              \<and> \<not> isClassifyLoading (onSubmit r True s)
              \<and> tasks (onSubmit r True s) = tasks s
              \<and> classifyBadgeProps (onSubmit r True s) = getAlertBadgeProps None
              \<and> children (classifyBadgeProps (onSubmit r True s)) = ''UNKNOWN''
              \<and> analyze_corner (onSubmit r True s) cf =
                  (if foodDetails cf = None then UnknownBadge else NoBadge))"
proof -
  have a: "snd (onSubmit_classified al cf s0) \<noteq> None \<longleftrightarrow> isFood cf \<and> foodDetails cf \<noteq> None"
    by (simp add: onSubmit_classified_def Let_def split: option.splits)
  show ?thesis
  proof (cases "isFood cf \<and> foodDetails cf \<noteq> None")
    case True
    then obtain fd where fd: "foodDetails cf = Some fd" and food: "isFood cf" by auto
    show ?thesis
      using a fd food onSubmit_checks [OF assms food fd]
      by (simp add: onSubmit_detected_def onSubmit_catch_def resetResults_def
            split: settled.splits)
  next
    case False
    show ?thesis
      using a False onSubmit_skips [OF assms False]
      by (auto simp add: resetResults_def classifyBadgeProps_def analyze_corner_def
            split: option.splits)
  qed
qed

theorem stage2_iff_food_with_details_witness:
  "preview staged = Some ''data:a'' \<and> ''data:a'' \<noteq> []
   \<and> classifyFood remote_blank ''data:a'' = Resolved not_food
   \<and> \<not> (isFood not_food \<and> foodDetails not_food \<noteq> None)
   \<and> calls (onSubmit remote_blank True staged) = [ClassifyFood ''data:a'']
   \<and> classificationResult (onSubmit remote_blank True staged) = Some not_food
   \<and> \<not> isClassifyLoading (onSubmit remote_blank True staged)
   \<and> children (classifyBadgeProps (onSubmit remote_blank True staged)) = ''UNKNOWN''
   \<and> analyze_corner (onSubmit remote_blank True staged) not_food = UnknownBadge"
proof -
  have p: "preview staged = Some ''data:a''" by (simp add: staged_def initial_def)
  have n: "''data:a'' \<noteq> []" by simp
  have c: "classifyFood remote_blank ''data:a'' = Resolved not_food"
    by (simp add: remote_blank_def)
  have f: "\<not> (isFood not_food \<and> foodDetails not_food \<noteq> None)" by (simp add: not_food_def)
  have k: "calls staged = []" by (simp add: staged_def initial_def)
  have d: "foodDetails not_food = None" by (simp add: not_food_def)
  show ?thesis
    using stage2_iff_food_with_details [OF p n c] p c f k d by simp
qed

subsection \<open>The label scan\<close>

lemma handleScanLabel_skips:
  assumes "preview s = Some p" "p \<noteq> []" "extractTextFromImage r p = Resolved []"
  shows "handleScanLabel r True s =
    (resetResults (s\<lparr>isOcrLoading := True\<rparr>))
      \<lparr>calls := calls s @ [ExtractText p], extractedText := Some [], isOcrLoading := False\<rparr>"
  using assms
  by (simp add: handleScanLabel_def handleScanLabel_started handleScanLabel_extracted_def
        Let_def resetResults_def)

lemma handleScanLabel_checks:
  assumes "preview s = Some p" "p \<noteq> []" "extractTextFromImage r p = Resolved txt" "txt \<noteq> []"
  shows "handleScanLabel r True s =
    (case detectAllergensAndGenerateAlert r txt (userAllergens s) of
       Rejected \<Rightarrow> handleScanLabel_catch
          ((resetResults (s\<lparr>isOcrLoading := True\<rparr>))
            \<lparr>extractedText := Some txt,
             calls := calls s @ [ExtractText p, DetectAllergens txt (userAllergens s)]\<rparr>)
     | Resolved da \<Rightarrow> handleScanLabel_detected da
          ((resetResults (s\<lparr>isOcrLoading := True\<rparr>))
            \<lparr>extractedText := Some txt,
             calls := calls s @ [ExtractText p, DetectAllergens txt (userAllergens s)]\<rparr>))"
  using assms
  by (simp add: handleScanLabel_def handleScanLabel_started handleScanLabel_extracted_def
        Let_def resetResults_def split: settled.splits)

text \<open>
  C3. Take a run of \<^verbatim>\<open>handleScanLabel\<close> that passes its checks and whose text
  extraction resolves with \<open>txt\<close>. The text is recorded in \<^verbatim>\<open>extractedText\<close>, empty or
  not, and on the \<^verbatim>\<open>scan-label\<close> tab the result card is rendered with it. The
  remote operations invoked are \<^verbatim>\<open>extractTextFromImage\<close> and then, exactly when the
  text is not empty, \<^verbatim>\<open>detectAllergensAndGenerateAlert\<close> on the text and the user's
  allergens; the segment after the extraction suspends on a second call in that case
  only. With an empty text the run is over after the first stage.
\<close>

theorem extracted_text_shown_stage2_iff_nonempty:
  assumes "preview s = Some p" and "p \<noteq> []" and "extractTextFromImage r p = Resolved txt"
  shows "extractedText (handleScanLabel r True s) = Some txt
         \<and> (activeTab s = ''scan-label'' \<longrightarrow>
              scan_card (handleScanLabel r True s) =
                Some (txt, scan_corner (handleScanLabel r True s),
                      ocrAllergenResult (handleScanLabel r True s)))
         \<and> calls (handleScanLabel r True s) =
             calls s @ ExtractText p #
               (if txt \<noteq> [] then [DetectAllergens txt (userAllergens s)] else [])
         \<and> (snd (handleScanLabel_extracted al txt s0) \<noteq> None \<longleftrightarrow> txt \<noteq> [])
         \<and> (txt = [] \<longrightarrow>
              ocrAllergenResult (handleScanLabel r True s) = None
              \<and> ocrError (handleScanLabel r True s) = None
              \<and> \<not> isOcrLoading (handleScanLabel r True s)
              \<and> tasks (handleScanLabel r True s) = tasks s)"
proof -
  have a: "snd (handleScanLabel_extracted al txt s0) \<noteq> None \<longleftrightarrow> txt \<noteq> []"
    by (simp add: handleScanLabel_extracted_def Let_def)
  show ?thesis
  proof (cases "txt = []")
    case True
    show ?thesis
      using a True handleScanLabel_skips [OF assms(1,2) assms(3) [unfolded True]]
      by (simp add: resetResults_def scan_card_def)
  next
    case False
    show ?thesis
      using a False handleScanLabel_checks [OF assms False]
      by (simp add: handleScanLabel_detected_def handleScanLabel_catch_def resetResults_def
            scan_card_def split: settled.splits)
  qed
qed

theorem extracted_text_shown_stage2_iff_nonempty_witness:
  "preview label_tab = Some ''data:a'' \<and> ''data:a'' \<noteq> []
   \<and> extractTextFromImage remote_blank ''data:a'' = Resolved []
   \<and> activeTab label_tab = ''scan-label''
   \<and> extractedText (handleScanLabel remote_blank True label_tab) = Some []
   \<and> scan_card (handleScanLabel remote_blank True label_tab) = Some ([], NoBadge, None)
   \<and> calls (handleScanLabel remote_blank True label_tab) = [ExtractText ''data:a'']"
proof -
  have p: "preview label_tab = Some ''data:a''"
    by (simp add: label_tab_def staged_def initial_def)
  have n: "''data:a'' \<noteq> []" by simp
  have c: "extractTextFromImage remote_blank ''data:a'' = Resolved []"
    by (simp add: remote_blank_def)
  have t: "activeTab label_tab = ''scan-label''" by (simp add: label_tab_def)
  have k: "calls label_tab = []" by (simp add: label_tab_def staged_def initial_def)
  show ?thesis
    using extracted_text_shown_stage2_iff_nonempty [OF p n c] p c t k
    by (simp add: scan_corner_def)
qed

subsection \<open>A failing second stage\<close>

text \<open>
  C5. The \<^verbatim>\<open>catch\<close> blocks of \<^verbatim>\<open>onSubmit\<close> and \<^verbatim>\<open>handleScanLabel\<close> leave the
  first-stage result as it is, in whatever state they run. So in a run whose first
  stage resolved and whose allergen check rejects, the run ends in its error state
  (the error message set, the "Analysis Failed" notification sent, loading off,
  nothing left suspended) while the classification, or the extracted text, stays
  recorded and its card stays rendered on its tab, without an allergen badge.
\<close>

theorem stage1_result_survives_stage2_failure:
  "classificationResult (onSubmit_catch s0) = classificationResult s0
   \<and> extractedText (handleScanLabel_catch s0) = extractedText s0
   \<and> (preview s = Some p \<and> p \<noteq> [] \<and> classifyFood r p = Resolved cf \<and> isFood cf
        \<and> foodDetails cf = Some fd
        \<and> detectAllergensAndGenerateAlert r (join (ingredients fd) '', '') (userAllergens s)
            = Rejected \<longrightarrow>
      classificationResult (onSubmit r True s) = Some cf
      \<and> allergenResult (onSubmit r True s) = None
      \<and> classifyError (onSubmit r True s)
          = Some ''An error occurred during analysis. Please try again.''
      \<and> toasts (onSubmit r True s) = toasts s @ [food_failed_toast]
      \<and> \<not> isClassifyLoading (onSubmit r True s)
      \<and> tasks (onSubmit r True s) = tasks s
      \<and> (activeTab s = ''analyze-food'' \<longrightarrow>
           analyze_card (onSubmit r True s) = Some (cf, NoBadge, None)))
   \<and> (preview s = Some p \<and> p \<noteq> [] \<and> extractTextFromImage r p = Resolved txt \<and> txt \<noteq> []
        \<and> detectAllergensAndGenerateAlert r txt (userAllergens s) = Rejected \<longrightarrow>
      extractedText (handleScanLabel r True s) = Some txt
      \<and> ocrAllergenResult (handleScanLabel r True s) = None
      \<and> ocrError (handleScanLabel r True s)
          = Some ''An error occurred during label analysis. Please try again.''
      \<and> toasts (handleScanLabel r True s) = toasts s @ [label_failed_toast]
      \<and> \<not> isOcrLoading (handleScanLabel r True s)
      \<and> tasks (handleScanLabel r True s) = tasks s
      \<and> (activeTab s = ''scan-label'' \<longrightarrow>
           scan_card (handleScanLabel r True s) = Some (txt, NoBadge, None)))"
proof (intro conjI impI)
  show "classificationResult (onSubmit_catch s0) = classificationResult s0"
    by (simp add: onSubmit_catch_def)
  show "extractedText (handleScanLabel_catch s0) = extractedText s0"
    by (simp add: handleScanLabel_catch_def)
next
  assume h: "preview s = Some p \<and> p \<noteq> [] \<and> classifyFood r p = Resolved cf \<and> isFood cf
        \<and> foodDetails cf = Some fd
        \<and> detectAllergensAndGenerateAlert r (join (ingredients fd) '', '') (userAllergens s)
            = Rejected"
  then have e: "onSubmit r True s = onSubmit_catch
          ((resetResults (s\<lparr>isClassifyLoading := True\<rparr>))
            \<lparr>classificationResult := Some cf,
             calls := calls s @ [ClassifyFood p,
                        DetectAllergens (join (ingredients fd) '', '') (userAllergens s)]\<rparr>)"
    using onSubmit_checks [of s p r cf fd] by simp
  show "classificationResult (onSubmit r True s) = Some cf"
    and "allergenResult (onSubmit r True s) = None"
    and "classifyError (onSubmit r True s)
          = Some ''An error occurred during analysis. Please try again.''"
    and "toasts (onSubmit r True s) = toasts s @ [food_failed_toast]"
    and "\<not> isClassifyLoading (onSubmit r True s)"
    and "tasks (onSubmit r True s) = tasks s"
    by (simp_all add: e onSubmit_catch_def resetResults_def)
  show "analyze_card (onSubmit r True s) = Some (cf, NoBadge, None)"
    if "activeTab s = ''analyze-food''"
    using that h by (simp add: e onSubmit_catch_def resetResults_def analyze_card_def analyze_corner_def)
next
  assume h: "preview s = Some p \<and> p \<noteq> [] \<and> extractTextFromImage r p = Resolved txt \<and> txt \<noteq> []
        \<and> detectAllergensAndGenerateAlert r txt (userAllergens s) = Rejected"
  then have e: "handleScanLabel r True s = handleScanLabel_catch
          ((resetResults (s\<lparr>isOcrLoading := True\<rparr>))
            \<lparr>extractedText := Some txt,
             calls := calls s @ [ExtractText p, DetectAllergens txt (userAllergens s)]\<rparr>)"
    using handleScanLabel_checks [of s p r "txt"] by simp
  show "extractedText (handleScanLabel r True s) = Some txt"
    and "ocrAllergenResult (handleScanLabel r True s) = None"
    and "ocrError (handleScanLabel r True s)
          = Some ''An error occurred during label analysis. Please try again.''"
    and "toasts (handleScanLabel r True s) = toasts s @ [label_failed_toast]"
    and "\<not> isOcrLoading (handleScanLabel r True s)"
    and "tasks (handleScanLabel r True s) = tasks s"
    by (simp_all add: e handleScanLabel_catch_def resetResults_def)
  show "scan_card (handleScanLabel r True s) = Some (txt, NoBadge, None)"
    if "activeTab s = ''scan-label''"
    using that h by (simp add: e handleScanLabel_catch_def resetResults_def scan_card_def scan_corner_def)
qed

theorem stage1_result_survives_stage2_failure_witness:
  "classificationResult (onSubmit remote_down True staged) = Some pizza
   \<and> classifyError (onSubmit remote_down True staged)
       = Some ''An error occurred during analysis. Please try again.''
   \<and> analyze_card (onSubmit remote_down True staged) = Some (pizza, NoBadge, None)
   \<and> extractedText (handleScanLabel remote_down True staged) = Some ''milk, sugar''
   \<and> ocrError (handleScanLabel remote_down True staged)
       = Some ''An error occurred during label analysis. Please try again.''"
proof -
  have p: "preview staged = Some ''data:a''" by (simp add: staged_def initial_def)
  have t: "activeTab staged = ''analyze-food''" by (simp add: staged_def initial_def)
  have c: "classifyFood remote_down ''data:a'' = Resolved pizza" by (simp add: remote_down_def)
  have x: "extractTextFromImage remote_down ''data:a'' = Resolved ''milk, sugar''"
    by (simp add: remote_down_def)
  have d: "detectAllergensAndGenerateAlert remote_down y z = Rejected" for y z
    by (simp add: remote_down_def)
  have f: "isFood pizza" by (simp add: pizza_def)
  have g: "foodDetails pizza = Some \<lparr>ingredients = [''milk'', ''sugar''], nutritionalData = ''n'',
                          region = ''r'', history = ''h''\<rparr>" by (simp add: pizza_def)
  show ?thesis
    using stage1_result_survives_stage2_failure
            [of staged staged "''data:a''" remote_down pizza
               "\<lparr>ingredients = [''milk'', ''sugar''], nutritionalData = ''n'',
                          region = ''r'', history = ''h''\<rparr>" "''milk, sugar''"]
          p t c x d f g
    by simp
qed

subsection \<open>Switching tabs\<close>

text \<open>
  C8. A tab switch is \<^verbatim>\<open>setActiveTab\<close> followed by \<^verbatim>\<open>resetResults\<close> and it is always
  offered. Afterwards the six result and error slots of both pipelines are empty, so
  neither result card and neither error banner is rendered: the run of the tab that
  was left is cleared, and no slot of the tab that was entered holds anything other
  than the empty value. The preview and the image of the form are as before; so are
  the loading flags and the suspended continuations.
\<close>

theorem tab_switch_clears_results_keeps_image:
  "slots (onValueChange v s) = (None, None, None, None, None, None)
   \<and> activeTab (onValueChange v s) = v
   \<and> preview (onValueChange v s) = preview s
   \<and> image (onValueChange v s) = image s
   \<and> analyze_card (onValueChange v s) = None
   \<and> scan_card (onValueChange v s) = None
   \<and> classify_banner (onValueChange v s) = None
   \<and> ocr_banner (onValueChange v s) = None
   \<and> tasks (onValueChange v s) = tasks s
   \<and> loading (onValueChange v s) = loading s
   \<and> fire (TabChange v) s = Some (onValueChange v s)
   \<and> onValueChange v s = (resetResults s)\<lparr>activeTab := v\<rparr>"
  by (simp add: onValueChange_def resetResults_def slots_def analyze_card_def scan_card_def
        classify_banner_def ocr_banner_def loading_def)

subsection \<open>Failed preconditions\<close>

text \<open>
  C10, as stated, fails: submitting without an image does write an error slot. In
  the initial state all six slots are empty; after \<^verbatim>\<open>onSubmit\<close> (online, no image)
  \<^verbatim>\<open>classifyError\<close> holds "Please select an image first.", and after
  \<^verbatim>\<open>handleScanLabel\<close> \<^verbatim>\<open>ocrError\<close> does.
\<close>

theorem no_image_sets_error_counterexample:
  "slots (initial []) = (None, None, None, None, None, None)
   \<and> slots (fst (onSubmit_begin True (initial [])))
       = (None, None, Some ''Please select an image first.'', None, None, None)
   \<and> slots (fst (handleScanLabel_begin True (initial [])))
       = (None, None, None, None, None, Some ''Please select an image first.'')"
  by (simp add: initial_def onSubmit_begin_def handleScanLabel_begin_def slots_def)

text \<open>
  C10, amended. Offline, the six slots are unchanged (only the notification is
  sent). Online without an image (no preview, or an empty one), the handler sets the
  error slot of its own pipeline to "Please select an image first." and changes
  nothing else: the other five slots and the loading flags stay, nothing is invoked,
  nothing is suspended. Online with an image, all six slots are empty and the
  loading flag of the pipeline is set at the moment the handler suspends on its first
  remote call, which is the only call it has added.
\<close>

theorem precondition_outcomes:
  "slots (fst (onSubmit_begin False s)) = slots s
   \<and> slots (fst (handleScanLabel_begin False s)) = slots s
   \<and> (\<not> truthy (preview s) \<longrightarrow>
        onSubmit_begin True s
          = (s\<lparr>classifyError := Some ''Please select an image first.''\<rparr>, None)
        \<and> handleScanLabel_begin True s
          = (s\<lparr>ocrError := Some ''Please select an image first.''\<rparr>, None))
   \<and> (preview s = Some p \<and> p \<noteq> [] \<longrightarrow>
        slots (fst (onSubmit_begin True s)) = (None, None, None, None, None, None)
        \<and> isClassifyLoading (fst (onSubmit_begin True s))
        \<and> calls (fst (onSubmit_begin True s)) = calls s @ [ClassifyFood p]
        \<and> snd (onSubmit_begin True s) = Some (AwaitClassify p (userAllergens s))
        \<and> slots (fst (handleScanLabel_begin True s)) = (None, None, None, None, None, None)
        \<and> isOcrLoading (fst (handleScanLabel_begin True s))
        \<and> calls (fst (handleScanLabel_begin True s)) = calls s @ [ExtractText p]
        \<and> snd (handleScanLabel_begin True s) = Some (AwaitExtract p (userAllergens s)))"
proof (intro conjI impI)
  show "slots (fst (onSubmit_begin False s)) = slots s"
    by (simp add: onSubmit_begin_def slots_def)
  show "slots (fst (handleScanLabel_begin False s)) = slots s"
    by (simp add: handleScanLabel_begin_def slots_def)
next
  assume "\<not> truthy (preview s)"
  then have "preview s = None \<or> preview s = Some []" by (cases "preview s") auto
  then show "onSubmit_begin True s
          = (s\<lparr>classifyError := Some ''Please select an image first.''\<rparr>, None)"
    and "handleScanLabel_begin True s
          = (s\<lparr>ocrError := Some ''Please select an image first.''\<rparr>, None)"
    by (auto simp add: onSubmit_begin_def handleScanLabel_begin_def)
next
  assume h: "preview s = Some p \<and> p \<noteq> []"
  then have a: "onSubmit_begin True s =
           ((resetResults (s\<lparr>isClassifyLoading := True\<rparr>))\<lparr>calls := calls s @ [ClassifyFood p]\<rparr>,
            Some (AwaitClassify p (userAllergens s)))"
    using onSubmit_started [of s p] by simp
  from h have b: "handleScanLabel_begin True s =
           ((resetResults (s\<lparr>isOcrLoading := True\<rparr>))\<lparr>calls := calls s @ [ExtractText p]\<rparr>,
            Some (AwaitExtract p (userAllergens s)))"
    using handleScanLabel_started [of s p] by simp
  show "slots (fst (onSubmit_begin True s)) = (None, None, None, None, None, None)"
    and "isClassifyLoading (fst (onSubmit_begin True s))"
    and "calls (fst (onSubmit_begin True s)) = calls s @ [ClassifyFood p]"
    and "snd (onSubmit_begin True s) = Some (AwaitClassify p (userAllergens s))"
    by (simp_all add: a resetResults_def slots_def)
  show "slots (fst (handleScanLabel_begin True s)) = (None, None, None, None, None, None)"
    and "isOcrLoading (fst (handleScanLabel_begin True s))"
    and "calls (fst (handleScanLabel_begin True s)) = calls s @ [ExtractText p]"
    and "snd (handleScanLabel_begin True s) = Some (AwaitExtract p (userAllergens s))"
    by (simp_all add: b resetResults_def slots_def)
qed

theorem precondition_outcomes_witness:
  "\<not> truthy (preview (initial []))
   \<and> classifyError (fst (onSubmit_begin True (initial []))) = Some ''Please select an image first.''
   \<and> preview shown = Some ''data:a'' \<and> ''data:a'' \<noteq> []
   \<and> slots shown \<noteq> (None, None, None, None, None, None)
   \<and> slots (fst (onSubmit_begin True shown)) = (None, None, None, None, None, None)
   \<and> calls (fst (onSubmit_begin True shown)) = [ClassifyFood ''data:a'']"
proof -
  have a: "\<not> truthy (preview (initial []))" by (simp add: initial_def)
  have b: "preview shown = Some ''data:a'' \<and> ''data:a'' \<noteq> []"
    by (simp add: shown_def staged_def initial_def)
  have c: "slots shown \<noteq> (None, None, None, None, None, None)"
    by (simp add: shown_def slots_def)
  have d: "calls shown = []" by (simp add: shown_def staged_def initial_def)
  show ?thesis
    using precondition_outcomes [of "initial []" "''data:a''"]
      precondition_outcomes [of shown "''data:a''"] a b c d
    by simp
qed

subsection \<open>Late responses\<close>

lemmas ev_defs = initial_def upload_a_def upload_b_def not_food_def handleFileChange_def onloadend_def resetResults_def
      loading_def form_valid_def onSubmit_begin_def handleScanLabel_begin_def onValueChange_def
      onSubmit_classified_def analyze_card_def analyze_corner_def

text \<open>
  C1, as stated, fails: nothing is compared before a stage result is applied. In
  \<open>superseded_run\<close> the analysis started on the uploaded image is superseded by two
  tab switches and a label scan; at that point no classification is recorded and no
  analysis card is rendered. When its classification then arrives it is recorded and
  the analysis card shows it.
\<close>

theorem late_response_applied_counterexample:
  "map_option tasks (run superseded_run (initial []))
     = Some [AwaitClassify ''data:a'' [], AwaitExtract ''data:a'' []]
   \<and> map_option classificationResult (run superseded_run (initial [])) = Some None
   \<and> map_option analyze_card (run superseded_run (initial [])) = Some None
   \<and> map_option classificationResult
         (run (superseded_run @ [Settle 0 (Classified not_food)]) (initial []))
     = Some (Some not_food)
   \<and> map_option analyze_card
         (run (superseded_run @ [Settle 0 (Classified not_food)]) (initial []))
     = Some (Some (not_food, UnknownBadge, None))"
  by (simp add: superseded_run_def ev_defs)

lemma onSubmit_classified_state:
  "fst (onSubmit_classified al cf s) =
     (if isFood cf \<and> foodDetails cf \<noteq> None
      then s\<lparr>classificationResult := Some cf,
             calls := calls s @ [DetectAllergens (join (ingredients (the (foodDetails cf))) '', '') al]\<rparr>
      else s\<lparr>classificationResult := Some cf, isClassifyLoading := False\<rparr>)"
  by (simp add: onSubmit_classified_def Let_def split: option.splits)

lemma handleScanLabel_extracted_state:
  "fst (handleScanLabel_extracted al t s) =
     (if t \<noteq> []
      then s\<lparr>extractedText := Some t, calls := calls s @ [DetectAllergens t al]\<rparr>
      else s\<lparr>extractedText := Some t, isOcrLoading := False\<rparr>)"
  by (simp add: handleScanLabel_extracted_def Let_def)

lemma scan_card_reads:
  assumes "extractedText a = extractedText b" "activeTab a = activeTab b"
    "isOcrLoading a = isOcrLoading b" "ocrAllergenResult a = ocrAllergenResult b"
  shows "scan_card a = scan_card b"
  using assms by (simp add: scan_card_def scan_corner_def ocrBadgeProps_def split: option.splits)

lemma analyze_card_reads:
  assumes "classificationResult a = classificationResult b" "activeTab a = activeTab b"
    "isClassifyLoading a = isClassifyLoading b" "allergenResult a = allergenResult b"
  shows "analyze_card a = analyze_card b"
proof -
  have "analyze_corner a cf = analyze_corner b cf" for cf
    using assms by (simp add: analyze_corner_def classifyBadgeProps_def)
  then show ?thesis
    using assms by (simp add: analyze_card_def split: option.splits)
qed

lemma count_without:
  assumes "i < length xs"
  shows "length (filter P (take i xs @ drop (Suc i) xs)) + (if P (xs ! i) then 1 else 0)
           = length (filter P xs)"
proof -
  have "xs = take i xs @ xs ! i # drop (Suc i) xs"
    using assms by (rule id_take_nth_drop)
  then have "filter P xs = filter P (take i xs @ xs ! i # drop (Suc i) xs)" by simp
  then show ?thesis by simp
qed

lemma resume_in_step:
  assumes "resume t out s = Some r"
    and "length (filter food_task (tasks s)) + (if food_task t then 1 else 0)
           = (if isClassifyLoading s then 1 else 0)"
    and "length (filter label_task (tasks s)) + (if label_task t then 1 else 0)
           = (if isOcrLoading s then 1 else 0)"
  shows "in_step (spawn r)"
  using assms
  by (cases "(t, out, s)" rule: resume.cases)
     (auto simp add: in_step_def onSubmit_classified_def onSubmit_detected_def onSubmit_catch_def
        handleScanLabel_extracted_def handleScanLabel_detected_def handleScanLabel_catch_def
        onloadend_def capture_then_def resetResults_def Let_def
        split: option.splits if_splits)

lemma fire_in_step:
  assumes "in_step s" and "fire e s = Some s'"
  shows "in_step s'"
proof (cases e)
  case (Settle i out)
  with assms(2) obtain r where i: "i < length (tasks s)"
    and r: "resume (tasks s ! i) out (s\<lparr>tasks := take i (tasks s) @ drop (Suc i) (tasks s)\<rparr>) = Some r"
    and s': "s' = spawn r"
    by (auto split: if_splits option.splits)
  show ?thesis
    unfolding s'
    using assms(1) count_without [OF i, of food_task] count_without [OF i, of label_task]
    by (intro resume_in_step [OF r]) (simp_all add: in_step_def)
next
  case (Submit online)
  with assms show ?thesis
    by (cases "preview s")
       (auto simp add: in_step_def onSubmit_begin_def resetResults_def split: if_splits)
next
  case (ScanLabelClick online)
  with assms show ?thesis
    by (cases "preview s")
       (auto simp add: in_step_def handleScanLabel_begin_def resetResults_def split: if_splits)
next
  case (FileChange f)
  with assms show ?thesis
    by (cases f) (auto simp add: in_step_def handleFileChange_def split: if_splits)
qed (use assms in \<open>auto simp add: in_step_def handleCapture_def openCamera_def resetState_def
      resetResults_def onValueChange_def split: if_splits\<close>)

lemma run_in_step:
  assumes "in_step s" and "run es s = Some s'"
  shows "in_step s'"
  using assms
proof (induction es arbitrary: s)
  case Nil
  then show ?case by simp
next
  case (Cons e es)
  then show ?case by (auto split: option.splits dest: fire_in_step)
qed

lemma initial_in_step: "in_step (initial al)"
  by (simp add: in_step_def initial_def)

lemma busy_blocks_same_kind:
  assumes "in_step s"
  shows "(filter food_task (tasks s) \<noteq> [] \<longrightarrow> fire (Submit online) s = None)
       \<and> (filter label_task (tasks s) \<noteq> [] \<longrightarrow> fire (ScanLabelClick online) s = None)"
  using assms by (auto simp add: in_step_def split: if_splits)

text \<open>
  C1, amended. A stage response or failure is applied when it arrives, in whatever
  state that is and whether or not its run has been superseded: the code holds no run
  identifier and compares none. What it writes is confined to its own pipeline: a
  response of the food analysis leaves the extracted text, the label's allergen
  result, error and loading flag, and hence the rendered label card, as they are, and
  a response of the label scan leaves the classification, the food allergen result,
  error and loading flag, and hence the rendered analysis card, as they are. Neither
  touches the preview, the form image, the active tab, the camera flag, the allergen
  profile or the continuations of other runs. Beyond the slots of its pipeline it
  only appends: the failure notification in the \<^verbatim>\<open>catch\<close> block, and the allergen
  call to the log when the first stage goes on to the second. And in
  every state the events lead to from the initial one, a pipeline with a run in
  flight does not accept another trigger, so a newer run that supersedes a run in
  flight is of the other pipeline.
\<close>

theorem late_response_stays_in_own_pipeline:
  "classificationResult (fst (onSubmit_classified al cf s)) = Some cf
   \<and> allergenResult (onSubmit_detected da s) = Some da
   \<and> classifyError (onSubmit_catch s) = Some ''An error occurred during analysis. Please try again.''
   \<and> extractedText (fst (handleScanLabel_extracted al t s)) = Some t
   \<and> ocrAllergenResult (handleScanLabel_detected da s) = Some da
   \<and> ocrError (handleScanLabel_catch s)
       = Some ''An error occurred during label analysis. Please try again.''
   \<and> label_slots (fst (onSubmit_classified al cf s)) = label_slots s
   \<and> label_slots (onSubmit_detected da s) = label_slots s
   \<and> label_slots (onSubmit_catch s) = label_slots s
   \<and> scan_card (fst (onSubmit_classified al cf s)) = scan_card s
   \<and> scan_card (onSubmit_detected da s) = scan_card s
   \<and> scan_card (onSubmit_catch s) = scan_card s
   \<and> food_slots (fst (handleScanLabel_extracted al t s)) = food_slots s
   \<and> food_slots (handleScanLabel_detected da s) = food_slots s
   \<and> food_slots (handleScanLabel_catch s) = food_slots s
   \<and> analyze_card (fst (handleScanLabel_extracted al t s)) = analyze_card s
   \<and> analyze_card (handleScanLabel_detected da s) = analyze_card s
   \<and> analyze_card (handleScanLabel_catch s) = analyze_card s
   \<and> shared (fst (onSubmit_classified al cf s)) = shared s
   \<and> shared (onSubmit_detected da s) = shared s
   \<and> shared (onSubmit_catch s) = shared s
   \<and> shared (fst (handleScanLabel_extracted al t s)) = shared s
   \<and> shared (handleScanLabel_detected da s) = shared s
   \<and> shared (handleScanLabel_catch s) = shared s
   \<and> toasts (fst (onSubmit_classified al cf s)) = toasts s
   \<and> toasts (onSubmit_detected da s) = toasts s
   \<and> toasts (onSubmit_catch s) = toasts s @ [food_failed_toast]
   \<and> toasts (fst (handleScanLabel_extracted al t s)) = toasts s
   \<and> toasts (handleScanLabel_detected da s) = toasts s
   \<and> toasts (handleScanLabel_catch s) = toasts s @ [label_failed_toast]
   \<and> calls (fst (onSubmit_classified al cf s)) =
         calls s @ (case snd (onSubmit_classified al cf s) of
                      Some (AwaitFoodAllergens txt al2) \<Rightarrow> [DetectAllergens txt al2]
                    | _ \<Rightarrow> [])
   \<and> calls (onSubmit_detected da s) = calls s
   \<and> calls (onSubmit_catch s) = calls s
   \<and> calls (fst (handleScanLabel_extracted al t s)) =
         calls s @ (if t \<noteq> [] then [DetectAllergens t al] else [])
   \<and> calls (handleScanLabel_detected da s) = calls s
   \<and> calls (handleScanLabel_catch s) = calls s
   \<and> (run es (initial al0) = Some s1 \<longrightarrow>
        (filter food_task (tasks s1) \<noteq> [] \<longrightarrow> fire (Submit online) s1 = None)
        \<and> (filter label_task (tasks s1) \<noteq> [] \<longrightarrow> fire (ScanLabelClick online) s1 = None))"
proof -
  have "(filter food_task (tasks s1) \<noteq> [] \<longrightarrow> fire (Submit online) s1 = None)
        \<and> (filter label_task (tasks s1) \<noteq> [] \<longrightarrow> fire (ScanLabelClick online) s1 = None)"
    if "run es (initial al0) = Some s1"
    using busy_blocks_same_kind [OF run_in_step [OF initial_in_step that]] .
  moreover have "calls (fst (onSubmit_classified al cf s)) =
         calls s @ (case snd (onSubmit_classified al cf s) of
                      Some (AwaitFoodAllergens txt al2) \<Rightarrow> [DetectAllergens txt al2]
                    | _ \<Rightarrow> [])"
    by (simp add: onSubmit_classified_def Let_def split: option.splits)
  ultimately show ?thesis
    by (intro conjI scan_card_reads analyze_card_reads)
       (simp_all add: onSubmit_classified_state onSubmit_detected_def onSubmit_catch_def
          handleScanLabel_extracted_state handleScanLabel_detected_def
          handleScanLabel_catch_def label_slots_def food_slots_def shared_def)
qed

theorem late_response_stays_in_own_pipeline_witness:
  "run superseded_run (initial []) = Some after_superseded
   \<and> filter food_task (tasks after_superseded) \<noteq> []
   \<and> filter label_task (tasks after_superseded) \<noteq> []
   \<and> fire (Submit True) after_superseded = None
   \<and> fire (ScanLabelClick True) after_superseded = None"
proof -
  have r: "run superseded_run (initial []) = Some after_superseded"
    by (simp add: superseded_run_def after_superseded_def ev_defs)
  have f: "filter food_task (tasks after_superseded) \<noteq> []"
    and l: "filter label_task (tasks after_superseded) \<noteq> []"
    by (simp_all add: after_superseded_def)
  show ?thesis
    using late_response_stays_in_own_pipeline
            [of _ _ _ _ _ superseded_run "[]" after_superseded True] r f l
    by simp
qed

subsection \<open>Staging an image\<close>



subsection \<open>The camera\<close>

text \<open>
  C6. The claim fails on the code where \<^verbatim>\<open>getUserMedia\<close> resolves after the
  cleanup of the effect has run: \<^verbatim>\<open>stopCamera\<close> found no stream to stop, and the
  stream granted afterwards is stored in the ref of the unmounted view and never
  stopped. After mount, unmount and grant one stream is live with no view mounted;
  after a second mount and grant two streams are live.
\<close>

theorem stream_granted_after_teardown_stays_live:
  "map_option live (camera_run [Mount True, Unmount, Granted 0] no_camera) = Some [0]
   \<and> map_option mounted (camera_run [Mount True, Unmount, Granted 0] no_camera) = Some None
   \<and> map_option live (camera_run cancel_then_reopen no_camera) = Some [0, 1]
   \<and> map_option mounted (camera_run cancel_then_reopen no_camera) = Some (Some 1)"
  by (simp add: cancel_then_reopen_def no_camera_def startCamera_begin_def stopCamera_def
        startCamera_granted_def fresh_view_def)

text \<open>
  C7, as stated, fails for the absent capture API: \<^verbatim>\<open>startCamera\<close> then ends in
  the very state it ends in when \<^verbatim>\<open>getUserMedia\<close> rejects with an unrelated error,
  with the same "Camera Error" notification.
\<close>

theorem unsupported_same_as_other_failure_counterexample:
  "startCamera False (Stream 0) 0 no_camera = startCamera True (Throws not_readable) 0 no_camera
   \<and> camera_toasts (startCamera False (Stream 0) 0 no_camera) = [generic_camera_toast]
   \<and> camera_toasts (startCamera True (Throws not_readable) 0 no_camera) = [generic_camera_toast]"
  by (simp add: startCamera_def startCamera_catch_def stopCamera_def no_camera_def
        fresh_view_def camera_toast_def not_supported_def not_readable_def
        generic_camera_toast_def)

lemma stopCamera_toasts: "camera_toasts (stopCamera i w) = camera_toasts w"
  by (simp add: stopCamera_def split: option.splits)

text \<open>
  C7, amended. A rejection named \<^verbatim>\<open>NotAllowedError\<close> is reported as "Camera Access
  Denied" and one named \<^verbatim>\<open>NotFoundError\<close> as "No Camera Found". An absent capture
  API is reported with the fallback "Camera Error" notification, which every
  rejection of another name gets too. The three notifications differ from each
  other. In every failing case \<^verbatim>\<open>hasPermission\<close> becomes false and exactly that one
  notification is sent.
\<close>

theorem camera_failures_reported:
  "camera_toast \<lparr>name = ''NotAllowedError'', message = m\<rparr> =
     \<lparr>variant = ''destructive'', title = ''Camera Access Denied'',
      description = ''Please enable camera permissions in your browser settings to use this feature.''\<rparr>
   \<and> camera_toast \<lparr>name = ''NotFoundError'', message = m\<rparr> =
     \<lparr>variant = ''destructive'', title = ''No Camera Found'',
      description = ''We couldn't find a camera on your device.''\<rparr>
   \<and> camera_toast not_supported = generic_camera_toast
   \<and> (name err \<noteq> ''NotAllowedError'' \<and> name err \<noteq> ''NotFoundError'' \<longrightarrow>
        camera_toast err = generic_camera_toast)
   \<and> distinct [camera_toast \<lparr>name = ''NotAllowedError'', message = m\<rparr>,
               camera_toast \<lparr>name = ''NotFoundError'', message = m\<rparr>,
               camera_toast not_supported]
   \<and> hasPermission (views (startCamera True (Throws err) i w) i) = Some False
   \<and> camera_toasts (startCamera True (Throws err) i w) = camera_toasts w @ [camera_toast err]
   \<and> hasPermission (views (startCamera False md i w) i) = Some False
   \<and> camera_toasts (startCamera False md i w) = camera_toasts w @ [camera_toast not_supported]"
  by (intro conjI)
     (simp_all add: camera_toast_def not_supported_def generic_camera_toast_def
        startCamera_def startCamera_catch_def stopCamera_toasts Let_def)

theorem camera_failures_reported_witness:
  "name not_readable \<noteq> ''NotAllowedError'' \<and> name not_readable \<noteq> ''NotFoundError''
   \<and> camera_toast not_readable = generic_camera_toast
   \<and> camera_toast not_supported = generic_camera_toast"
proof -
  have a: "name not_readable \<noteq> ''NotAllowedError'' \<and> name not_readable \<noteq> ''NotFoundError''"
    by (simp add: not_readable_def)
  show ?thesis
    using camera_failures_reported [of "[]" not_readable] a by simp
qed

end
